theory Spec2Isabelle
  imports Main "HOL-Library.Word"
begin

unbundle bit_operations_syntax

section \<open>Python values\<close>

text \<open>
  A Python \<open>str\<close> is a sequence of Unicode code points: \<open>len\<close> and slicing count code
  points. String constants of the source that are ASCII are written \<open>lit ''...''\<close>; the
  Cyrillic ones are given by their code points.
\<close>

type_synonym pystr = "nat list"

definition lit :: "string \<Rightarrow> pystr" where
  "lit cs = map of_char cs"

text \<open>A Python \<open>float\<close> is kept as its IEEE 754 binary64 bit pattern.\<close>

type_synonym float64 = "64 word"

text \<open>
  The values \<open>response.json()\<close> and \<open>json.loads\<close> produce, and the strings the code
  builds from them. A \<open>dict\<close> is the list of its items in insertion order; its keys are
  strings, as JSON object keys are.
\<close>

datatype pyval =
    PNone
  | PBool bool
  | PInt int
  | PFloat float64
  | PStr pystr
  | PList "pyval list"
  | PDict "(pystr \<times> pyval) list"

datatype py_error =
    TypeError
  | AttributeError
  | KeyError
  | OverflowError
  | UnicodeEncodeError
  | JSONDecodeError
  | Sqlite3Error

text \<open>\<open>bool(v)\<close>: the truth value Python's \<open>if v\<close> and \<open>not v\<close> test.\<close>

fun truthy :: "pyval \<Rightarrow> bool" where
  "truthy PNone = False"
| "truthy (PBool b) = b"
| "truthy (PInt i) = (i \<noteq> 0)"
| "truthy (PFloat f) = (f \<noteq> 0 \<and> f \<noteq> 0x8000000000000000)"
| "truthy (PStr s) = (s \<noteq> [])"
| "truthy (PList xs) = (xs \<noteq> [])"
| "truthy (PDict kvs) = (kvs \<noteq> [])"

text \<open>\<open>sub in s\<close> on two strings: \<open>sub\<close> occurs in \<open>s\<close> as a contiguous run.\<close>

fun py_substr :: "pystr \<Rightarrow> pystr \<Rightarrow> bool" where
  "py_substr sub [] = (sub = [])"
| "py_substr sub (c # cs) = (take (length sub) (c # cs) = sub \<or> py_substr sub cs)"

text \<open>
  \<open>k in v\<close> for a string \<open>k\<close>: key test on a dict, element test on a list, substring
  test on a string, \<open>TypeError\<close> on a value that is not a container.
\<close>

fun py_contains :: "pystr \<Rightarrow> pyval \<Rightarrow> py_error + bool" where
  "py_contains k (PDict kvs) = Inr (map_of kvs k \<noteq> None)"
| "py_contains k (PList xs) = Inr (PStr k \<in> set xs)"
| "py_contains k (PStr s) = Inr (py_substr k s)"
| "py_contains k _ = Inl TypeError"

text \<open>\<open>v[k]\<close> for a string \<open>k\<close>: only a dict can be indexed by a string.\<close>

fun py_getitem :: "pyval \<Rightarrow> pystr \<Rightarrow> py_error + pyval" where
  "py_getitem (PDict kvs) k = (case map_of kvs k of None \<Rightarrow> Inl KeyError | Some v \<Rightarrow> Inr v)"
| "py_getitem _ k = Inl TypeError"

text \<open>\<open>v.get(k, d)\<close>: a method of dict only; \<open>v.get(k)\<close> is \<open>py_get v k PNone\<close>.\<close>

fun py_get :: "pyval \<Rightarrow> pystr \<Rightarrow> pyval \<Rightarrow> py_error + pyval" where
  "py_get (PDict kvs) k d = Inr (case map_of kvs k of None \<Rightarrow> d | Some v \<Rightarrow> v)"
| "py_get _ k d = Inl AttributeError"

text \<open>\<open>len(v)\<close>.\<close>

fun py_len :: "pyval \<Rightarrow> py_error + nat" where
  "py_len (PStr s) = Inr (length s)"
| "py_len (PList xs) = Inr (length xs)"
| "py_len (PDict kvs) = Inr (length kvs)"
| "py_len _ = Inl TypeError"

text \<open>\<open>for x in v\<close>: the elements of a list, the keys of a dict, the characters of a string.\<close>

fun py_iter :: "pyval \<Rightarrow> py_error + pyval list" where
  "py_iter (PList xs) = Inr xs"
| "py_iter (PDict kvs) = Inr (map (\<lambda>kv. PStr (fst kv)) kvs)"
| "py_iter (PStr s) = Inr (map (\<lambda>c. PStr [c]) s)"
| "py_iter _ = Inl TypeError"

text \<open>\<open>str(n)\<close> for a natural number and for an integer: decimal digits.\<close>

fun str_nat :: "nat \<Rightarrow> pystr" where
  "str_nat n = (if n < 10 then [48 + n] else str_nat (n div 10) @ [48 + n mod 10])"

definition str_int :: "int \<Rightarrow> pystr" where
  "str_int i = (if i < 0 then 45 # str_nat (nat (- i)) else str_nat (nat i))"



section \<open>Logging\<close>

text \<open>
  A log record is kept as its level and the line of the \<open>logger\<close> call in
  \<open>src/processor.py\<close> that emitted it; the interpolated message text is left out. Every
  function returns the records it emitted, in order.
\<close>

datatype log_level = INFO | WARNING | ERROR

type_synonym log_entry = "log_level \<times> nat"

section \<open>The SQLite engine\<close>

text \<open>
  Modelled from the SQLite and \<open>sqlite3\<close> documentation: the storage engine is a library,
  not code of this repository. A table has its column names, the name of its
  \<open>INTEGER PRIMARY KEY\<close> column (an alias of the rowid) and its rows, each with its rowid.
  Column type affinity of the other columns is not modelled.
\<close>

datatype sqlval = SNull | SInt int | SReal float64 | SText pystr | SBlob "8 word list"

record table =
  pk :: pystr
  cols :: "pystr list"
  rows :: "(int \<times> sqlval list) list"

type_synonym database = "(pystr \<times> table) list"

text \<open>The parsed \<open>CREATE TABLE\<close> statement a \<open>schema_sql\<close> string stands for.\<close>

record create_table =
  ct_name :: pystr
  ct_pk :: pystr
  ct_cols :: "pystr list"

datatype stmt = SelectMaster | CreateStmt | InsertStmt

text \<open>
  A connection: the committed contents of the database file, the contents as the open
  transaction sees them, which kinds of statement the engine fails with an
  \<open>sqlite3.Error\<close> (locked or corrupt file, disk error), and the engine's conversion of a
  text, real or blob key to a rowid (\<open>None\<close>: datatype mismatch).
\<close>

record conn =
  committed :: database
  working :: database
  fails :: "stmt \<Rightarrow> bool"
  rowid_of :: "sqlval \<Rightarrow> int option"

definition commit :: "conn \<Rightarrow> conn" where
  "commit c = c\<lparr>committed := working c\<rparr>"

definition rollback :: "conn \<Rightarrow> conn" where
  "rollback c = c\<lparr>working := committed c\<rparr>"

text \<open>\<open>conn.close()\<close>: what stays in the file is what was committed.\<close>

definition close :: "conn \<Rightarrow> database" where
  "close c = committed c"

fun set_table :: "pystr \<Rightarrow> table \<Rightarrow> database \<Rightarrow> database" where
  "set_table n t [] = [(n, t)]"
| "set_table n t ((m, u) # db) = (if m = n then (n, t) # db else (m, u) # set_table n t db)"

text \<open>\<open>cursor.execute(schema_sql)\<close>: \<open>None\<close> stands for a raised \<open>sqlite3.Error\<close>.\<close>

definition exec_create :: "conn \<Rightarrow> create_table \<Rightarrow> conn option" where
  "exec_create c s =
     (if fails c CreateStmt \<or> map_of (working c) (ct_name s) \<noteq> None
         \<or> \<not> distinct (ct_cols s) \<or> ct_pk s \<notin> set (ct_cols s)
      then None
      else Some (c\<lparr>working := working c @
                   [(ct_name s, \<lparr>pk = ct_pk s, cols = ct_cols s, rows = []\<rparr>)]\<rparr>))"

definition is_nan :: "float64 \<Rightarrow> bool" where
  "is_nan f = (f AND 0x7FF0000000000000 = 0x7FF0000000000000 \<and> f AND 0xFFFFFFFFFFFFF \<noteq> 0)"

definition is_surrogate :: "nat \<Rightarrow> bool" where
  "is_surrogate cp = (0xD800 \<le> cp \<and> cp \<le> 0xDFFF)"

text \<open>
  Binding one Python value to a \<open>?\<close> placeholder: a list or dict is refused with
  \<open>sqlite3.ProgrammingError\<close>, an integer outside 64 bits with \<open>OverflowError\<close>, a
  string with a lone surrogate with \<open>UnicodeEncodeError\<close>; NaN is stored as NULL.
\<close>

fun bind_param :: "pyval \<Rightarrow> py_error + sqlval" where
  "bind_param PNone = Inr SNull"
| "bind_param (PBool b) = Inr (SInt (if b then 1 else 0))"
| "bind_param (PInt i) =
     (if - (2 ^ 63) \<le> i \<and> i < 2 ^ 63 then Inr (SInt i) else Inl OverflowError)"
| "bind_param (PFloat f) = Inr (if is_nan f then SNull else SReal f)"
| "bind_param (PStr s) = (if list_ex is_surrogate s then Inl UnicodeEncodeError else Inr (SText s))"
| "bind_param (PList xs) = Inl Sqlite3Error"
| "bind_param (PDict kvs) = Inl Sqlite3Error"

fun bind_all :: "pyval list \<Rightarrow> py_error + sqlval list" where
  "bind_all [] = Inr []"
| "bind_all (v # vs) =
     (case bind_param v of
        Inl e \<Rightarrow> Inl e
      | Inr s \<Rightarrow> (case bind_all vs of Inl e \<Rightarrow> Inl e | Inr ss \<Rightarrow> Inr (s # ss)))"

text \<open>The rowid SQLite gives a row inserted with a NULL key: one more than the largest.\<close>

definition new_rowid :: "(int \<times> sqlval list) list \<Rightarrow> int" where
  "new_rowid rs = (case rs of [] \<Rightarrow> 1 | r # rs' \<Rightarrow> fold max (map fst rs') (fst r) + 1)"

definition column_value :: "pystr list \<Rightarrow> sqlval list \<Rightarrow> pystr \<Rightarrow> sqlval" where
  "column_value columns vals c = (case map_of (zip columns vals) c of None \<Rightarrow> SNull | Some v \<Rightarrow> v)"

definition put_row :: "table \<Rightarrow> pystr list \<Rightarrow> sqlval list \<Rightarrow> int \<Rightarrow> table \<times> nat" where
  "put_row t columns vals k =
     (if k \<in> fst ` set (rows t) then (t, 0)
      else (t\<lparr>rows := rows t @
               [(k, map (\<lambda>c. if c = pk t then SInt k else column_value columns vals c) (cols t))]\<rparr>,
            1))"

text \<open>
  One \<open>INSERT OR IGNORE INTO t (columns) VALUES (?, ...)\<close> with one tuple: the new table
  and the number of rows changed (0 when the key exists already).
\<close>

definition insert_or_ignore :: "(sqlval \<Rightarrow> int option) \<Rightarrow> pystr list \<Rightarrow> table \<Rightarrow> pyval list
    \<Rightarrow> py_error + table \<times> nat" where
  "insert_or_ignore rid columns t tuple =
     (if length tuple \<noteq> length columns then Inl Sqlite3Error
      else case bind_all tuple of
        Inl e \<Rightarrow> Inl e
      | Inr vals \<Rightarrow>
          (case column_value columns vals (pk t) of
             SNull \<Rightarrow> Inr (put_row t columns vals (new_rowid (rows t)))
           | SInt k \<Rightarrow> Inr (put_row t columns vals k)
           | v \<Rightarrow> (case rid v of
                     None \<Rightarrow> Inl Sqlite3Error
                   | Some k \<Rightarrow> Inr (put_row t columns vals k))))"

text \<open>The tuples of \<open>executemany\<close> in order; it stops at the first one that raises.\<close>

fun insert_many :: "(sqlval \<Rightarrow> int option) \<Rightarrow> pystr list \<Rightarrow> table \<Rightarrow> pyval list list \<Rightarrow> nat
    \<Rightarrow> py_error option \<times> table \<times> nat" where
  "insert_many rid columns t [] n = (None, t, n)"
| "insert_many rid columns t (r # rs) n =
     (case insert_or_ignore rid columns t r of
        Inl e \<Rightarrow> (Some e, t, n)
      | Inr (t', k) \<Rightarrow> insert_many rid columns t' rs (n + k))"

text \<open>
  \<open>cursor.executemany(sql, data)\<close>: the exception raised if any, the connection with the
  rows inserted so far in its open transaction, and \<open>cursor.rowcount\<close>.
\<close>

definition executemany :: "conn \<Rightarrow> pystr \<Rightarrow> pystr list \<Rightarrow> pyval list list
    \<Rightarrow> py_error option \<times> conn \<times> nat" where
  "executemany c table_name columns data =
     (if fails c InsertStmt then (Some Sqlite3Error, c, 0)
      else case map_of (working c) table_name of
        None \<Rightarrow> (Some Sqlite3Error, c, 0)
      | Some t \<Rightarrow>
          if columns = [] \<or> \<not> distinct columns \<or> \<not> set columns \<subseteq> set (cols t)
          then (Some Sqlite3Error, c, 0)
          else (case insert_many (rowid_of c) columns t data 0 of
                  (e, t', n) \<Rightarrow> (e, c\<lparr>working := set_table table_name t' (working c)\<rparr>, n)))"

section \<open>src/processor.py: the API client\<close>

text \<open>
  What one \<open>requests.get\<close> does: it raises \<open>Timeout\<close>, raises another
  \<open>RequestException\<close>, or returns a response with a status code and a body that
  \<open>response.json()\<close> parses or refuses. \<open>requests\<close> from 2.27 on refuses with an
  exception that is a \<open>RequestException\<close> too; older ones with \<open>json.JSONDecodeError\<close>.
\<close>

datatype decode_exc = RequestsJSONDecodeError | StdJSONDecodeError

datatype http_outcome =
    GetTimeout
  | GetRequestException
  | Response nat "decode_exc + pyval"

text \<open>The world outside the program, and the library functions left abstract.\<close>

record env =
  http :: "pystr \<Rightarrow> (pystr \<times> pyval) list option \<Rightarrow> http_outcome"
  connect_fails :: bool
  db_fails :: "stmt \<Rightarrow> bool"
  db_rowid_of :: "sqlval \<Rightarrow> int option"
  json_dumps :: "pyval \<Rightarrow> pystr"
  float_add :: "pyval \<Rightarrow> pyval \<Rightarrow> py_error + pyval"

definition BASE_API_URL :: pystr where
  "BASE_API_URL = lit ''https://dummyjson.com/''"

definition DEFAULT_LIMIT :: int where "DEFAULT_LIMIT = 10"
definition DEFAULT_SKIP :: int where "DEFAULT_SKIP = 0"
definition DEFAULT_SEARCH :: pystr where "DEFAULT_SEARCH = lit ''iPhone''"

text \<open>\<open>fetch_api_data\<close>: the parsed JSON, or \<open>None\<close> after any of the three failures.\<close>

definition fetch_api_data :: "env \<Rightarrow> pystr \<Rightarrow> (pystr \<times> pyval) list option
    \<Rightarrow> pyval \<times> log_entry list" where
  "fetch_api_data x entity params =
     (case http x (BASE_API_URL @ entity) params of
        GetTimeout \<Rightarrow> (PNone, [(INFO, 55), (ERROR, 66)])
      | GetRequestException \<Rightarrow> (PNone, [(INFO, 55), (ERROR, 69)])
      | Response status body \<Rightarrow>
          if 400 \<le> status \<and> status < 600 then (PNone, [(INFO, 55), (ERROR, 69)])
          else (case body of
                  Inl RequestsJSONDecodeError \<Rightarrow> (PNone, [(INFO, 55), (INFO, 62), (ERROR, 69)])
                | Inl StdJSONDecodeError \<Rightarrow> (PNone, [(INFO, 55), (INFO, 62), (ERROR, 72)])
                | Inr data \<Rightarrow> (data, [(INFO, 55), (INFO, 62)])))"

section \<open>src/processor.py: the storage functions\<close>

text \<open>
  \<open>get_db_connection\<close>: \<open>DB_NAME\<close> has no directory part, so no directory is made;
  \<open>sqlite3.connect\<close> opens the file or raises \<open>sqlite3.Error\<close>.
\<close>

definition get_db_connection :: "env \<Rightarrow> database \<Rightarrow> conn option \<times> log_entry list" where
  "get_db_connection x db =
     (if connect_fails x then (None, [(ERROR, 101)])
      else (Some \<lparr>committed = db, working = db, fails = db_fails x, rowid_of = db_rowid_of x\<rparr>,
            [(INFO, 97)]))"

definition init_db_table :: "conn \<Rightarrow> pystr \<Rightarrow> create_table \<Rightarrow> bool \<times> conn \<times> log_entry list" where
  "init_db_table c table_name schema_sql =
     (if fails c SelectMaster then (False, rollback c, [(ERROR, 137)])
      else if map_of (working c) table_name = None then
        (case exec_create c schema_sql of
           None \<Rightarrow> (False, rollback c, [(INFO, 127), (ERROR, 137)])
         | Some c' \<Rightarrow> (True, commit c', [(INFO, 127), (INFO, 130)]))
      else (True, c, [(INFO, 132)]))"

definition save_data_to_db :: "conn \<Rightarrow> pystr \<Rightarrow> pyval list list \<Rightarrow> pystr list
    \<Rightarrow> (py_error + int) \<times> conn \<times> log_entry list" where
  "save_data_to_db c table_name data columns =
     (if data = [] then (Inr 0, c, [(INFO, 156)])
      else case executemany c table_name columns data of
        (Some e, c', n) \<Rightarrow>
          if e = Sqlite3Error then (Inr 0, rollback c', [(ERROR, 181)])
          else (Inl e, c', [])
      | (None, c', n) \<Rightarrow>
          (Inr (int n), commit c', [if n > 0 then (INFO, 174) else (INFO, 176)]))"

section \<open>src/processor.py: the entity processors\<close>

text \<open>
  The test of lines 203, 298 and 439,
  \<open>not api_response or key not in api_response or not api_response[key]\<close>, evaluated left
  to right: \<open>Inr None\<close> when it holds (the processor returns early), the list otherwise,
  and the exception when \<open>in\<close> or the subscript raises.
\<close>

definition checked_list :: "pyval \<Rightarrow> pystr \<Rightarrow> py_error + pyval option" where
  "checked_list api_response key =
     (if \<not> truthy api_response then Inr None
      else case py_contains key api_response of
        Inl e \<Rightarrow> Inl e
      | Inr False \<Rightarrow> Inr None
      | Inr True \<Rightarrow>
          (case py_getitem api_response key of
             Inl e \<Rightarrow> Inl e
           | Inr v \<Rightarrow> if \<not> truthy v then Inr None else Inr (Some v)))"

text \<open>\<open>d.get(k, dflt)\<close> on the items of a dict.\<close>

definition dict_get :: "(pystr \<times> pyval) list \<Rightarrow> pystr \<Rightarrow> pyval \<Rightarrow> pyval" where
  "dict_get d k dflt = (case map_of d k of None \<Rightarrow> dflt | Some v \<Rightarrow> v)"

text \<open>The default title of the warnings of lines 248, 361 and 476.\<close>

definition UNKNOWN :: pystr where
  "UNKNOWN = [1053, 1077, 1080, 1079, 1074, 1077, 1089, 1090, 1085, 1086]"

subsection \<open>Products\<close>

definition products_columns :: "pystr list" where
  "products_columns =
     [lit ''api_id'', lit ''title'', lit ''description'', lit ''price'',
      lit ''discountPercentage'', lit ''rating'', lit ''stock'', lit ''brand'',
      lit ''category'', lit ''thumbnail'', lit ''images'']"

definition products_schema :: create_table where
  "products_schema = \<lparr>ct_name = lit ''products'', ct_pk = lit ''api_id'',
     ct_cols = products_columns\<rparr>"

text \<open>
  Lines 252 to 264. Every field is read with \<open>product.get\<close>, which only a dict has: on
  any other value the first call raises \<open>AttributeError\<close>.
\<close>

definition product_tuple :: "env \<Rightarrow> pyval \<Rightarrow> py_error + pyval list" where
  "product_tuple x product =
     (case product of
        PDict d \<Rightarrow> Inr
         [dict_get d (lit ''id'') PNone,
          dict_get d (lit ''title'') PNone,
          dict_get d (lit ''description'') PNone,
          dict_get d (lit ''price'') PNone,
          dict_get d (lit ''discountPercentage'') PNone,
          dict_get d (lit ''rating'') PNone,
          dict_get d (lit ''stock'') PNone,
          dict_get d (lit ''brand'') PNone,
          dict_get d (lit ''category'') PNone,
          dict_get d (lit ''thumbnail'') PNone,
          PStr (json_dumps x (dict_get d (lit ''images'') (PList [])))]
      | _ \<Rightarrow> Inl AttributeError)"

text \<open>The loop of lines 245 to 265: \<open>data_to_save\<close> and the warnings, or the exception.\<close>

fun products_data_to_save :: "env \<Rightarrow> pyval list
    \<Rightarrow> (py_error + pyval list list) \<times> log_entry list" where
  "products_data_to_save x [] = (Inr [], [])"
| "products_data_to_save x (product # rest) =
     (case py_contains (lit ''id'') product of
        Inl e \<Rightarrow> (Inl e, [])
      | Inr False \<Rightarrow>
          (case py_get product (lit ''title'') (PStr UNKNOWN) of
             Inl e \<Rightarrow> (Inl e, [])
           | Inr title \<Rightarrow>
               (case products_data_to_save x rest of (r, l) \<Rightarrow> (r, (WARNING, 248) # l)))
      | Inr True \<Rightarrow>
          (case product_tuple x product of
             Inl e \<Rightarrow> (Inl e, [])
           | Inr t \<Rightarrow>
               (case products_data_to_save x rest of
                  (Inl e, l) \<Rightarrow> (Inl e, l)
                | (Inr data, l) \<Rightarrow> (Inr (t # data), l))))"

text \<open>The body of the \<open>try\<close> of lines 216 to 276.\<close>

definition products_try :: "env \<Rightarrow> conn \<Rightarrow> pyval \<Rightarrow> py_error option \<times> conn \<times> log_entry list" where
  "products_try x conn products_list =
     (case init_db_table conn (lit ''products'') products_schema of
        (False, c1, l1) \<Rightarrow> (None, c1, l1 @ [(ERROR, 240)])
      | (True, c1, l1) \<Rightarrow>
          (case py_iter products_list of
             Inl e \<Rightarrow> (Some e, c1, l1)
           | Inr items \<Rightarrow>
               (case products_data_to_save x items of
                  (Inl e, l2) \<Rightarrow> (Some e, c1, l1 @ l2)
                | (Inr data_to_save, l2) \<Rightarrow>
                    (case save_data_to_db c1 (lit ''products'') data_to_save products_columns of
                       (Inl e, c2, l3) \<Rightarrow> (Some e, c2, l1 @ l2 @ l3)
                     | (Inr saved_count, c2, l3) \<Rightarrow>
                         (None, c2, l1 @ l2 @ l3 @
                            [if saved_count > 0 then (INFO, 273) else (INFO, 276)])))))"


subsection \<open>Users\<close>

definition users_columns :: "pystr list" where
  "users_columns =
     [lit ''api_id'', lit ''firstName'', lit ''lastName'', lit ''maidenName'', lit ''age'',
      lit ''gender'', lit ''email'', lit ''phone'', lit ''username'', lit ''password'',
      lit ''birthDate'', lit ''image'', lit ''bloodGroup'', lit ''height'', lit ''weight'',
      lit ''eyeColor'', lit ''hair'', lit ''domain'', lit ''ip'', lit ''address'',
      lit ''macAddress'', lit ''university'', lit ''bank'', lit ''company'', lit ''ein'',
      lit ''ssn'', lit ''userAgent'']"

definition users_schema :: create_table where
  "users_schema = \<lparr>ct_name = lit ''users'', ct_pk = lit ''api_id'', ct_cols = users_columns\<rparr>"

text \<open>Lines 365 to 399.\<close>

definition user_tuple :: "env \<Rightarrow> pyval \<Rightarrow> py_error + pyval list" where
  "user_tuple x user =
     (case user of
        PDict d \<Rightarrow> Inr
         [dict_get d (lit ''id'') PNone,
          dict_get d (lit ''firstName'') PNone,
          dict_get d (lit ''lastName'') PNone,
          dict_get d (lit ''maidenName'') PNone,
          dict_get d (lit ''age'') PNone,
          dict_get d (lit ''gender'') PNone,
          dict_get d (lit ''email'') PNone,
          dict_get d (lit ''phone'') PNone,
          dict_get d (lit ''username'') PNone,
          dict_get d (lit ''password'') PNone,
          dict_get d (lit ''birthDate'') PNone,
          dict_get d (lit ''image'') PNone,
          dict_get d (lit ''bloodGroup'') PNone,
          dict_get d (lit ''height'') PNone,
          dict_get d (lit ''weight'') PNone,
          dict_get d (lit ''eyeColor'') PNone,
          PStr (json_dumps x (dict_get d (lit ''hair'') (PDict []))),
          dict_get d (lit ''domain'') PNone,
          dict_get d (lit ''ip'') PNone,
          PStr (json_dumps x (dict_get d (lit ''address'') (PDict []))),
          dict_get d (lit ''macAddress'') PNone,
          dict_get d (lit ''university'') PNone,
          PStr (json_dumps x (dict_get d (lit ''bank'') (PDict []))),
          PStr (json_dumps x (dict_get d (lit ''company'') (PDict []))),
          dict_get d (lit ''ein'') PNone,
          dict_get d (lit ''ssn'') PNone,
          dict_get d (lit ''userAgent'') PNone]
      | _ \<Rightarrow> Inl AttributeError)"

text \<open>The loop of lines 358 to 400.\<close>

fun users_data_to_save :: "env \<Rightarrow> pyval list
    \<Rightarrow> (py_error + pyval list list) \<times> log_entry list" where
  "users_data_to_save x [] = (Inr [], [])"
| "users_data_to_save x (user # rest) =
     (case py_contains (lit ''id'') user of
        Inl e \<Rightarrow> (Inl e, [])
      | Inr False \<Rightarrow>
          (case py_get user (lit ''username'') (PStr UNKNOWN) of
             Inl e \<Rightarrow> (Inl e, [])
           | Inr username \<Rightarrow>
               (case users_data_to_save x rest of (r, l) \<Rightarrow> (r, (WARNING, 361) # l)))
      | Inr True \<Rightarrow>
          (case user_tuple x user of
             Inl e \<Rightarrow> (Inl e, [])
           | Inr t \<Rightarrow>
               (case users_data_to_save x rest of
                  (Inl e, l) \<Rightarrow> (Inl e, l)
                | (Inr data, l) \<Rightarrow> (Inr (t # data), l))))"

text \<open>The body of the \<open>try\<close> of lines 311 to 411.\<close>

definition users_try :: "env \<Rightarrow> conn \<Rightarrow> pyval \<Rightarrow> py_error option \<times> conn \<times> log_entry list" where
  "users_try x conn users_list =
     (case init_db_table conn (lit ''users'') users_schema of
        (False, c1, l1) \<Rightarrow> (None, c1, l1 @ [(ERROR, 353)])
      | (True, c1, l1) \<Rightarrow>
          (case py_iter users_list of
             Inl e \<Rightarrow> (Some e, c1, l1)
           | Inr items \<Rightarrow>
               (case users_data_to_save x items of
                  (Inl e, l2) \<Rightarrow> (Some e, c1, l1 @ l2)
                | (Inr data_to_save, l2) \<Rightarrow>
                    (case save_data_to_db c1 (lit ''users'') data_to_save users_columns of
                       (Inl e, c2, l3) \<Rightarrow> (Some e, c2, l1 @ l2 @ l3)
                     | (Inr saved_count, c2, l3) \<Rightarrow>
                         (None, c2, l1 @ l2 @ l3 @
                            [if saved_count > 0 then (INFO, 408) else (INFO, 411)])))))"


subsection \<open>Posts\<close>

definition posts_columns :: "pystr list" where
  "posts_columns =
     [lit ''api_id'', lit ''title'', lit ''body'', lit ''userId'', lit ''tags'',
      lit ''reactions'']"

definition posts_schema :: create_table where
  "posts_schema = \<lparr>ct_name = lit ''posts'', ct_pk = lit ''api_id'', ct_cols = posts_columns\<rparr>"

text \<open>
  \<open>a + b\<close> as \<open>sum\<close> uses it: two integers (a bool counts as 0 or 1) add exactly; with
  a float among two numbers the result is the library's; anything else raises
  \<open>TypeError\<close>.
\<close>

fun as_int :: "pyval \<Rightarrow> int option" where
  "as_int (PInt i) = Some i"
| "as_int (PBool b) = Some (if b then 1 else 0)"
| "as_int _ = None"

fun is_number :: "pyval \<Rightarrow> bool" where
  "is_number (PInt i) = True"
| "is_number (PBool b) = True"
| "is_number (PFloat f) = True"
| "is_number _ = False"

definition py_add :: "env \<Rightarrow> pyval \<Rightarrow> pyval \<Rightarrow> py_error + pyval" where
  "py_add x a b =
     (case (as_int a, as_int b) of
        (Some i, Some j) \<Rightarrow> Inr (PInt (i + j))
      | _ \<Rightarrow> if is_number a \<and> is_number b then float_add x a b else Inl TypeError)"

text \<open>\<open>sum(values)\<close> is \<open>py_sum x (PInt 0) values\<close>.\<close>

fun py_sum :: "env \<Rightarrow> pyval \<Rightarrow> pyval list \<Rightarrow> py_error + pyval" where
  "py_sum x acc [] = Inr acc"
| "py_sum x acc (v # vs) =
     (case py_add x acc v of Inl e \<Rightarrow> Inl e | Inr acc' \<Rightarrow> py_sum x acc' vs)"

text \<open>Lines 480 to 483, on the items of the post.\<close>

definition post_reactions :: "env \<Rightarrow> (pystr \<times> pyval) list \<Rightarrow> py_error + pyval" where
  "post_reactions x d =
     (case dict_get d (lit ''reactions'') (PInt 0) of
        PDict reactions \<Rightarrow> py_sum x (PInt 0) (map snd reactions)
      | reactions \<Rightarrow> Inr reactions)"

text \<open>Lines 480 to 493.\<close>

definition post_tuple :: "env \<Rightarrow> pyval \<Rightarrow> py_error + pyval list" where
  "post_tuple x post =
     (case post of
        PDict d \<Rightarrow>
          (case post_reactions x d of
             Inl e \<Rightarrow> Inl e
           | Inr reactions \<Rightarrow> Inr
               [dict_get d (lit ''id'') PNone,
                dict_get d (lit ''title'') PNone,
                dict_get d (lit ''body'') PNone,
                dict_get d (lit ''userId'') PNone,
                PStr (json_dumps x (dict_get d (lit ''tags'') (PList []))),
                reactions])
      | _ \<Rightarrow> Inl AttributeError)"

text \<open>The loop of lines 473 to 494.\<close>

fun posts_data_to_save :: "env \<Rightarrow> pyval list
    \<Rightarrow> (py_error + pyval list list) \<times> log_entry list" where
  "posts_data_to_save x [] = (Inr [], [])"
| "posts_data_to_save x (post # rest) =
     (case py_contains (lit ''id'') post of
        Inl e \<Rightarrow> (Inl e, [])
      | Inr False \<Rightarrow>
          (case py_get post (lit ''title'') (PStr UNKNOWN) of
             Inl e \<Rightarrow> (Inl e, [])
           | Inr title \<Rightarrow>
               (case posts_data_to_save x rest of (r, l) \<Rightarrow> (r, (WARNING, 476) # l)))
      | Inr True \<Rightarrow>
          (case post_tuple x post of
             Inl e \<Rightarrow> (Inl e, [])
           | Inr t \<Rightarrow>
               (case posts_data_to_save x rest of
                  (Inl e, l) \<Rightarrow> (Inl e, l)
                | (Inr data, l) \<Rightarrow> (Inr (t # data), l))))"

text \<open>The body of the \<open>try\<close> of lines 452 to 505.\<close>

definition posts_try :: "env \<Rightarrow> conn \<Rightarrow> pyval \<Rightarrow> py_error option \<times> conn \<times> log_entry list" where
  "posts_try x conn posts_list =
     (case init_db_table conn (lit ''posts'') posts_schema of
        (False, c1, l1) \<Rightarrow> (None, c1, l1 @ [(ERROR, 468)])
      | (True, c1, l1) \<Rightarrow>
          (case py_iter posts_list of
             Inl e \<Rightarrow> (Some e, c1, l1)
           | Inr items \<Rightarrow>
               (case posts_data_to_save x items of
                  (Inl e, l2) \<Rightarrow> (Some e, c1, l1 @ l2)
                | (Inr data_to_save, l2) \<Rightarrow>
                    (case save_data_to_db c1 (lit ''posts'') data_to_save posts_columns of
                       (Inl e, c2, l3) \<Rightarrow> (Some e, c2, l1 @ l2 @ l3)
                     | (Inr saved_count, c2, l3) \<Rightarrow>
                         (None, c2, l1 @ l2 @ l3 @
                            [if saved_count > 0 then (INFO, 502) else (INFO, 505)])))))"

text \<open>
  Lines 428 to 433: \<open>if user_id:\<close> tests the truth value of an \<open>Optional[int]\<close>, which
  is false for \<open>None\<close> and for 0. The endpoint and the line of the opening log record.
\<close>

definition posts_endpoint :: "int option \<Rightarrow> pystr \<times> log_entry" where
  "posts_endpoint user_id =
     (if user_id \<noteq> None \<and> user_id \<noteq> Some 0
      then (lit ''users/'' @ str_int (the user_id) @ lit ''/posts'', (INFO, 429))
      else (lit ''posts'', (INFO, 432)))"

definition process_posts :: "env \<Rightarrow> int \<Rightarrow> int \<Rightarrow> int option \<Rightarrow> database
    \<Rightarrow> py_error option \<times> database \<times> log_entry list" where
  "process_posts x limit skip user_id db =
     (case posts_endpoint user_id of (endpoint, start) \<Rightarrow>
     (case fetch_api_data x endpoint
             (Some [(lit ''limit'', PInt limit), (lit ''skip'', PInt skip)]) of
        (api_response, l0) \<Rightarrow>
     (case checked_list api_response (lit ''posts'') of
        Inl e \<Rightarrow> (Some e, db, start # l0)
      | Inr None \<Rightarrow> (None, db, start # l0 @ [(WARNING, 440)])
      | Inr (Some posts_list) \<Rightarrow>
          (case py_len posts_list of
             Inl e \<Rightarrow> (Some e, db, start # l0)
           | Inr total_count \<Rightarrow>
               (case get_db_connection x db of
                  (None, l1) \<Rightarrow> (None, db, start # l0 @ (INFO, 444) # l1 @ [(ERROR, 449)])
                | (Some conn, l1) \<Rightarrow>
                    (case posts_try x conn posts_list of
                       (err, conn', l2) \<Rightarrow>
                         (err, close conn',
                          start # l0 @ (INFO, 444) # l1 @ l2 @ [(INFO, 510)])))))))"

section \<open>src/view_db.py: formatting a stored value\<close>












section \<open>Predicates of the statements\<close>






text \<open>
  A value whose binding raises nothing but \<open>sqlite3.Error\<close>; a record that is a JSON
  object with such values; a post that moreover has, when its \<open>reactions\<close> is an object,
  integer values in it with a sum that can be bound; and a response that is empty, or an
  object whose field is absent, empty or a list of such records.
\<close>

definition storable :: "pyval \<Rightarrow> bool" where
  "storable v = (bind_param v \<noteq> Inl OverflowError \<and> bind_param v \<noteq> Inl UnicodeEncodeError)"






section \<open>Concrete environments\<close>

text \<open>
  An environment in which every request has the given outcome, the database works, and
  \<open>json.dumps\<close> is replaced by a constant; a fresh connection on a database.
\<close>

definition ex_env :: "http_outcome \<Rightarrow> env" where
  "ex_env out = \<lparr>http = (\<lambda>url params. out), connect_fails = False, db_fails = (\<lambda>s. False),
     db_rowid_of = (\<lambda>v. None), json_dumps = (\<lambda>v. lit ''[]''),
     float_add = (\<lambda>a b. Inl TypeError)\<rparr>"

definition ex_conn :: "database \<Rightarrow> conn" where
  "ex_conn db = \<lparr>committed = db, working = db, fails = (\<lambda>s. False), rowid_of = (\<lambda>v. None)\<rparr>"







section \<open>Lemmas\<close>

lemma lit_eq_iff [simp]: "lit a = lit b \<longleftrightarrow> a = b"
  unfolding lit_def by (simp add: inj_map_eq_map inj_of_char)

lemma lit_Nil [simp]: "lit [] = []"
  by (simp add: lit_def)

lemma lit_eq_Nil [simp]: "lit a = [] \<longleftrightarrow> a = []" "[] = lit a \<longleftrightarrow> a = []"
  by (auto simp: lit_def)

lemma length_lit [simp]: "length (lit a) = length a"
  by (simp add: lit_def)

section \<open>The owning-user filter of process_posts\<close>

text \<open>
  C9. \<open>process_posts\<close> tests \<open>user_id\<close> by truth value: with \<open>user_id = 0\<close> it takes
  the branch without filter, requests the endpoint \<open>posts\<close> and not \<open>users/0/posts\<close>,
  and so does exactly what it does with no \<open>user_id\<close> at all.
\<close>

theorem process_posts_user_zero:
  "posts_endpoint (Some 0) = (lit ''posts'', (INFO, 432)) \<and>
   process_posts x limit skip (Some 0) db = process_posts x limit skip None db"
  by (simp add: process_posts_def posts_endpoint_def)

theorem process_posts_user_zero_witness:
  "process_posts
     (ex_env (Response 200 (Inr (PDict [(lit ''posts'', PList [PDict [(lit ''id'', PInt 1)]])]))))
     10 0 (Some 0) [] =
   process_posts
     (ex_env (Response 200 (Inr (PDict [(lit ''posts'', PList [PDict [(lit ''id'', PInt 1)]])]))))
     10 0 None []"
  by (rule conjunct2 [OF process_posts_user_zero])

section \<open>The failures of fetch_api_data\<close>




section \<open>The early return of the processors\<close>




section \<open>Creating a table once\<close>

text \<open>
  C7. \<open>init_db_table\<close> looks the table up by name and executes the creation statement
  only when it is absent. After a call that succeeded, with a statement that creates the
  table of that name, a second call changes nothing and succeeds again; a call that finds
  the table leaves the connection as it was.
\<close>

theorem init_db_table_idempotent:
  assumes "init_db_table c table_name schema_sql = (True, c1, l1)"
      and "ct_name schema_sql = table_name"
  shows "init_db_table c1 table_name schema_sql = (True, c1, [(INFO, 132)]) \<and>
         (map_of (working c) table_name \<noteq> None \<longrightarrow> c1 = c \<and> l1 = [(INFO, 132)]) \<and>
         (map_of (working c) table_name = None \<longrightarrow>
            exec_create c schema_sql \<noteq> None \<and> c1 = commit (the (exec_create c schema_sql)))"
  using assms
  by (auto simp: init_db_table_def exec_create_def commit_def map_add_Some_iff
      split: if_splits option.splits)

theorem init_db_table_idempotent_witness:
  "init_db_table (commit (the (exec_create (ex_conn []) posts_schema))) (lit ''posts'')
       posts_schema =
     (True, commit (the (exec_create (ex_conn []) posts_schema)), [(INFO, 132)])"
  using init_db_table_idempotent [of "ex_conn []" "lit ''posts''" posts_schema
      "commit (the (exec_create (ex_conn []) posts_schema))" "[(INFO, 127), (INFO, 130)]"]
  by (simp add: init_db_table_def exec_create_def ex_conn_def posts_schema_def posts_columns_def)

section \<open>The reactions of a post\<close>





section \<open>Records without an identifier\<close>

lemma products_data_to_save_append:
  "products_data_to_save x (a @ b) =
     (case products_data_to_save x a of
        (Inl e, la) \<Rightarrow> (Inl e, la)
      | (Inr da, la) \<Rightarrow>
          (case products_data_to_save x b of
             (Inl e, lb) \<Rightarrow> (Inl e, la @ lb)
           | (Inr db, lb) \<Rightarrow> (Inr (da @ db), la @ lb)))"
  by (induction a) (auto split: sum.splits prod.splits bool.splits)

lemma users_data_to_save_append:
  "users_data_to_save x (a @ b) =
     (case users_data_to_save x a of
        (Inl e, la) \<Rightarrow> (Inl e, la)
      | (Inr da, la) \<Rightarrow>
          (case users_data_to_save x b of
             (Inl e, lb) \<Rightarrow> (Inl e, la @ lb)
           | (Inr db, lb) \<Rightarrow> (Inr (da @ db), la @ lb)))"
  by (induction a) (auto split: sum.splits prod.splits bool.splits)

lemma posts_data_to_save_append:
  "posts_data_to_save x (a @ b) =
     (case posts_data_to_save x a of
        (Inl e, la) \<Rightarrow> (Inl e, la)
      | (Inr da, la) \<Rightarrow>
          (case posts_data_to_save x b of
             (Inl e, lb) \<Rightarrow> (Inl e, la @ lb)
           | (Inr db, lb) \<Rightarrow> (Inr (da @ db), la @ lb)))"
  by (induction a) (auto split: sum.splits prod.splits bool.splits)

lemma skip_products:
  assumes "map_of d (lit ''id'') = None"
  shows "products_data_to_save x (PDict d # rest) =
           (fst (products_data_to_save x rest),
            (WARNING, 248) # snd (products_data_to_save x rest))"
  using assms by (simp split: prod.splits)

lemma skip_products_mid:
  assumes "map_of d (lit ''id'') = None"
  shows "fst (products_data_to_save x (pre @ PDict d # post)) =
         fst (products_data_to_save x (pre @ post))"
  using assms
  by (simp add: products_data_to_save_append split: prod.splits sum.splits)

lemma products_try_cong:
  assumes "fst (products_data_to_save x a) = fst (products_data_to_save x b)"
  shows "fst (products_try x c (PList a)) = fst (products_try x c (PList b)) \<and>
         fst (snd (products_try x c (PList a))) = fst (snd (products_try x c (PList b)))"
proof -
  obtain ok c1 l1 where i: "init_db_table c (lit ''products'') products_schema = (ok, c1, l1)"
    by (cases "init_db_table c (lit ''products'') products_schema") auto
  obtain r la where a: "products_data_to_save x a = (r, la)"
    by (cases "products_data_to_save x a") auto
  obtain r' lb where b: "products_data_to_save x b = (r', lb)"
    by (cases "products_data_to_save x b") auto
  have r: "r' = r" using assms a b by simp
  show ?thesis
  proof (cases ok)
    case False
    then show ?thesis by (simp add: products_try_def i)
  next
    case True
    show ?thesis
    proof (cases r)
      case (Inl e)
      then show ?thesis by (simp add: products_try_def i a b r True)
    next
      case (Inr data)
      obtain res c2 l3 where s:
        "save_data_to_db c1 (lit ''products'') data products_columns = (res, c2, l3)"
        by (cases "save_data_to_db c1 (lit ''products'') data products_columns") auto
      show ?thesis
        by (cases res) (simp_all add: products_try_def i a b r True Inr s)
    qed
  qed
qed

lemma skip_users:
  assumes "map_of d (lit ''id'') = None"
  shows "users_data_to_save x (PDict d # rest) =
           (fst (users_data_to_save x rest),
            (WARNING, 361) # snd (users_data_to_save x rest))"
  using assms by (simp split: prod.splits)

lemma skip_users_mid:
  assumes "map_of d (lit ''id'') = None"
  shows "fst (users_data_to_save x (pre @ PDict d # post)) =
         fst (users_data_to_save x (pre @ post))"
  using assms
  by (simp add: users_data_to_save_append split: prod.splits sum.splits)

lemma users_try_cong:
  assumes "fst (users_data_to_save x a) = fst (users_data_to_save x b)"
  shows "fst (users_try x c (PList a)) = fst (users_try x c (PList b)) \<and>
         fst (snd (users_try x c (PList a))) = fst (snd (users_try x c (PList b)))"
proof -
  obtain ok c1 l1 where i: "init_db_table c (lit ''users'') users_schema = (ok, c1, l1)"
    by (cases "init_db_table c (lit ''users'') users_schema") auto
  obtain r la where a: "users_data_to_save x a = (r, la)"
    by (cases "users_data_to_save x a") auto
  obtain r' lb where b: "users_data_to_save x b = (r', lb)"
    by (cases "users_data_to_save x b") auto
  have r: "r' = r" using assms a b by simp
  show ?thesis
  proof (cases ok)
    case False
    then show ?thesis by (simp add: users_try_def i)
  next
    case True
    show ?thesis
    proof (cases r)
      case (Inl e)
      then show ?thesis by (simp add: users_try_def i a b r True)
    next
      case (Inr data)
      obtain res c2 l3 where s:
        "save_data_to_db c1 (lit ''users'') data users_columns = (res, c2, l3)"
        by (cases "save_data_to_db c1 (lit ''users'') data users_columns") auto
      show ?thesis
        by (cases res) (simp_all add: users_try_def i a b r True Inr s)
    qed
  qed
qed

lemma skip_posts:
  assumes "map_of d (lit ''id'') = None"
  shows "posts_data_to_save x (PDict d # rest) =
           (fst (posts_data_to_save x rest),
            (WARNING, 476) # snd (posts_data_to_save x rest))"
  using assms by (simp split: prod.splits)

lemma skip_posts_mid:
  assumes "map_of d (lit ''id'') = None"
  shows "fst (posts_data_to_save x (pre @ PDict d # post)) =
         fst (posts_data_to_save x (pre @ post))"
  using assms
  by (simp add: posts_data_to_save_append split: prod.splits sum.splits)

lemma posts_try_cong:
  assumes "fst (posts_data_to_save x a) = fst (posts_data_to_save x b)"
  shows "fst (posts_try x c (PList a)) = fst (posts_try x c (PList b)) \<and>
         fst (snd (posts_try x c (PList a))) = fst (snd (posts_try x c (PList b)))"
proof -
  obtain ok c1 l1 where i: "init_db_table c (lit ''posts'') posts_schema = (ok, c1, l1)"
    by (cases "init_db_table c (lit ''posts'') posts_schema") auto
  obtain r la where a: "posts_data_to_save x a = (r, la)"
    by (cases "posts_data_to_save x a") auto
  obtain r' lb where b: "posts_data_to_save x b = (r', lb)"
    by (cases "posts_data_to_save x b") auto
  have r: "r' = r" using assms a b by simp
  show ?thesis
  proof (cases ok)
    case False
    then show ?thesis by (simp add: posts_try_def i)
  next
    case True
    show ?thesis
    proof (cases r)
      case (Inl e)
      then show ?thesis by (simp add: posts_try_def i a b r True)
    next
      case (Inr data)
      obtain res c2 l3 where s:
        "save_data_to_db c1 (lit ''posts'') data posts_columns = (res, c2, l3)"
        by (cases "save_data_to_db c1 (lit ''posts'') data posts_columns") auto
      show ?thesis
        by (cases res) (simp_all add: posts_try_def i a b r True Inr s)
    qed
  qed
qed


text \<open>
  C2. In each of the three processors a record that is a JSON object without the key
  \<open>id\<close> is skipped with the warning of line 248, 361 or 476, and the loop goes on with
  the remaining records exactly as it would without that record: the batch handed to
  \<open>save_data_to_db\<close> is the same with and without it, so the exception raised if any and
  the connection after the \<open>try\<close> body (the rows inserted and their count) are the same.
\<close>

theorem records_without_id_skipped:
  assumes "map_of d (lit ''id'') = None"
  shows "products_data_to_save x (PDict d # rest) =
           (fst (products_data_to_save x rest),
            (WARNING, 248) # snd (products_data_to_save x rest)) \<and>
         fst (products_data_to_save x (pre @ PDict d # post)) =
           fst (products_data_to_save x (pre @ post)) \<and>
         fst (products_try x c (PList (pre @ PDict d # post))) =
           fst (products_try x c (PList (pre @ post))) \<and>
         fst (snd (products_try x c (PList (pre @ PDict d # post)))) =
           fst (snd (products_try x c (PList (pre @ post)))) \<and>
         users_data_to_save x (PDict d # rest) =
           (fst (users_data_to_save x rest),
            (WARNING, 361) # snd (users_data_to_save x rest)) \<and>
         fst (users_data_to_save x (pre @ PDict d # post)) =
           fst (users_data_to_save x (pre @ post)) \<and>
         fst (users_try x c (PList (pre @ PDict d # post))) =
           fst (users_try x c (PList (pre @ post))) \<and>
         fst (snd (users_try x c (PList (pre @ PDict d # post)))) =
           fst (snd (users_try x c (PList (pre @ post)))) \<and>
         posts_data_to_save x (PDict d # rest) =
           (fst (posts_data_to_save x rest),
            (WARNING, 476) # snd (posts_data_to_save x rest)) \<and>
         fst (posts_data_to_save x (pre @ PDict d # post)) =
           fst (posts_data_to_save x (pre @ post)) \<and>
         fst (posts_try x c (PList (pre @ PDict d # post))) =
           fst (posts_try x c (PList (pre @ post))) \<and>
         fst (snd (posts_try x c (PList (pre @ PDict d # post)))) =
           fst (snd (posts_try x c (PList (pre @ post))))"
  using skip_products [OF assms] skip_products_mid [OF assms]
    products_try_cong [OF skip_products_mid [OF assms]]
    skip_users [OF assms] skip_users_mid [OF assms]
    users_try_cong [OF skip_users_mid [OF assms]]
    skip_posts [OF assms] skip_posts_mid [OF assms]
    posts_try_cong [OF skip_posts_mid [OF assms]]
  by simp

theorem records_without_id_skipped_witness:
  "products_data_to_save (ex_env GetTimeout)
     [PDict [(lit ''id'', PInt 1)], PDict [(lit ''title'', PStr (lit ''x''))],
      PDict [(lit ''id'', PInt 2)]] =
   (fst (products_data_to_save (ex_env GetTimeout)
          [PDict [(lit ''id'', PInt 1)], PDict [(lit ''id'', PInt 2)]]),
    [(WARNING, 248)]) \<and>
   fst (snd (posts_try (ex_env GetTimeout) (ex_conn [])
     (PList [PDict [(lit ''id'', PInt 1)], PDict [(lit ''title'', PStr (lit ''x''))],
      PDict [(lit ''id'', PInt 2)]]))) =
   fst (snd (posts_try (ex_env GetTimeout) (ex_conn [])
     (PList [PDict [(lit ''id'', PInt 1)], PDict [(lit ''id'', PInt 2)]])))"
  using records_without_id_skipped
    [of "[(lit ''title'', PStr (lit ''x''))]" "ex_env GetTimeout" "[PDict [(lit ''id'', PInt 2)]]"
      "[PDict [(lit ''id'', PInt 1)]]" "[PDict [(lit ''id'', PInt 2)]]" "ex_conn []"]
  by (simp add: product_tuple_def split: prod.splits)

section \<open>The flattened columns\<close>

lemma bind_all_nth:
  "bind_all t = Inr v \<Longrightarrow> i < length t \<Longrightarrow> bind_param (t ! i) = Inr (v ! i)"
proof (induction t arbitrary: v i)
  case Nil
  then show ?case by simp
next
  case (Cons a t)
  then show ?case
    by (cases i) (auto split: sum.splits)
qed

lemma bind_param_str: "bind_param (PStr s) = Inr u \<Longrightarrow> u = SText s"
  by (simp split: if_splits)

lemma text_bound:
  assumes "bind_all t = Inr v" and "i < length t" and "t ! i = PStr s"
  shows "v ! i = SText s"
  using bind_all_nth [OF assms(1,2)] assms(3) by (simp split: if_splits)

lemma products_data_to_save_tuples:
  "products_data_to_save x items = (Inr data, l) \<Longrightarrow> t \<in> set data \<Longrightarrow>
     \<exists>d. product_tuple x (PDict d) = Inr t"
proof (induction items arbitrary: data l)
  case Nil
  then show ?case by simp
next
  case (Cons p items)
  show ?case
  proof (cases "py_contains (lit ''id'') p")
    case (Inl e)
    with Cons.prems show ?thesis by simp
  next
    case (Inr has)
    show ?thesis
    proof (cases has)
      case False
      with Inr Cons.prems Cons.IH show ?thesis
        by (auto split: sum.splits prod.splits)
    next
      case True
      obtain r l' where rest: "products_data_to_save x items = (r, l')"
        by (cases "products_data_to_save x items") auto
      from True Inr Cons.prems rest obtain t0 data' where
        t0: "product_tuple x p = Inr t0" and r: "r = Inr data'" and data: "data = t0 # data'"
        by (auto split: sum.splits)
      from t0 obtain d where "p = PDict d"
        by (cases p) (auto simp: product_tuple_def)
      with t0 data r rest Cons.prems(2) Cons.IH [of data' l'] show ?thesis
        by auto
    qed
  qed
qed

lemma users_data_to_save_tuples:
  "users_data_to_save x items = (Inr data, l) \<Longrightarrow> t \<in> set data \<Longrightarrow>
     \<exists>d. user_tuple x (PDict d) = Inr t"
proof (induction items arbitrary: data l)
  case Nil
  then show ?case by simp
next
  case (Cons p items)
  show ?case
  proof (cases "py_contains (lit ''id'') p")
    case (Inl e)
    with Cons.prems show ?thesis by simp
  next
    case (Inr has)
    show ?thesis
    proof (cases has)
      case False
      with Inr Cons.prems Cons.IH show ?thesis
        by (auto split: sum.splits prod.splits)
    next
      case True
      obtain r l' where rest: "users_data_to_save x items = (r, l')"
        by (cases "users_data_to_save x items") auto
      from True Inr Cons.prems rest obtain t0 data' where
        t0: "user_tuple x p = Inr t0" and r: "r = Inr data'" and data: "data = t0 # data'"
        by (auto split: sum.splits)
      from t0 obtain d where "p = PDict d"
        by (cases p) (auto simp: user_tuple_def)
      with t0 data r rest Cons.prems(2) Cons.IH [of data' l'] show ?thesis
        by auto
    qed
  qed
qed

lemma posts_data_to_save_tuples:
  "posts_data_to_save x items = (Inr data, l) \<Longrightarrow> t \<in> set data \<Longrightarrow>
     \<exists>d. post_tuple x (PDict d) = Inr t"
proof (induction items arbitrary: data l)
  case Nil
  then show ?case by simp
next
  case (Cons p items)
  show ?case
  proof (cases "py_contains (lit ''id'') p")
    case (Inl e)
    with Cons.prems show ?thesis by simp
  next
    case (Inr has)
    show ?thesis
    proof (cases has)
      case False
      with Inr Cons.prems Cons.IH show ?thesis
        by (auto split: sum.splits prod.splits)
    next
      case True
      obtain r l' where rest: "posts_data_to_save x items = (r, l')"
        by (cases "posts_data_to_save x items") auto
      from True Inr Cons.prems rest obtain t0 data' where
        t0: "post_tuple x p = Inr t0" and r: "r = Inr data'" and data: "data = t0 # data'"
        by (auto split: sum.splits)
      from t0 obtain d where "p = PDict d"
        by (cases p) (auto simp: post_tuple_def)
      with t0 data r rest Cons.prems(2) Cons.IH [of data' l'] show ?thesis
        by auto
    qed
  qed
qed


lemma bind_all_length: "bind_all t = Inr v \<Longrightarrow> length v = length t"
  by (induction t arbitrary: v) (auto split: sum.splits)

lemma column_value_nth:
  assumes "length vals = length columns" and "distinct columns" and "i < length columns"
  shows "column_value columns vals (columns ! i) = vals ! i"
  using assms by (simp add: column_value_def map_of_zip_nth)

lemma distinct_columns:
  "distinct products_columns" "distinct users_columns" "distinct posts_columns"
  by (simp_all add: products_columns_def users_columns_def posts_columns_def)

lemma tuple_lengths:
  "product_tuple x p = Inr t \<Longrightarrow> length t = 11"
  "user_tuple x p = Inr t \<Longrightarrow> length t = 27"
  "post_tuple x p = Inr t \<Longrightarrow> length t = 6"
  by (cases p; auto simp: product_tuple_def user_tuple_def post_tuple_def split: sum.splits)+

text \<open>
  C10. For every tuple a processor hands to \<open>save_data_to_db\<close> and that SQLite binds,
  the value bound to each flattened column (\<open>images\<close> of a product; \<open>hair\<close>,
  \<open>address\<close>, \<open>bank\<close> and \<open>company\<close> of a user; \<open>tags\<close> of a post) is a text, the
  result of \<open>json.dumps\<close>, and so never NULL.
\<close>

theorem nested_columns_are_text:
  assumes "products_data_to_save x items1 = (Inr data1, l1)" and "t1 \<in> set data1"
      and "bind_all t1 = Inr v1"
      and "users_data_to_save x items2 = (Inr data2, l2)" and "t2 \<in> set data2"
      and "bind_all t2 = Inr v2"
      and "posts_data_to_save x items3 = (Inr data3, l3)" and "t3 \<in> set data3"
      and "bind_all t3 = Inr v3"
  shows "(\<exists>u. column_value products_columns v1 (lit ''images'') = SText (json_dumps x u)) \<and>
         (\<exists>u. column_value users_columns v2 (lit ''hair'') = SText (json_dumps x u)) \<and>
         (\<exists>u. column_value users_columns v2 (lit ''address'') = SText (json_dumps x u)) \<and>
         (\<exists>u. column_value users_columns v2 (lit ''bank'') = SText (json_dumps x u)) \<and>
         (\<exists>u. column_value users_columns v2 (lit ''company'') = SText (json_dumps x u)) \<and>
         (\<exists>u. column_value posts_columns v3 (lit ''tags'') = SText (json_dumps x u))"
proof -
  from products_data_to_save_tuples [OF assms(1,2)]
  obtain d1 where d1: "product_tuple x (PDict d1) = Inr t1" by blast
  have n1: "length v1 = length products_columns"
    using bind_all_length [OF assms(3)] tuple_lengths(1) [OF d1]
    by (simp add: products_columns_def)
  have p: "\<exists>u. v1 ! 10 = SText (json_dumps x u)"
    using text_bound [OF assms(3), of 10] d1
    by (auto simp: product_tuple_def)
  have c1: "column_value products_columns v1 (products_columns ! 10) = v1 ! 10"
    by (rule column_value_nth [OF n1 distinct_columns(1)]) (simp add: products_columns_def)
  from users_data_to_save_tuples [OF assms(4,5)]
  obtain d2 where d2: "user_tuple x (PDict d2) = Inr t2" by blast
  have n2: "length v2 = length users_columns"
    using bind_all_length [OF assms(6)] tuple_lengths(2) [OF d2]
    by (simp add: users_columns_def)
  have u16: "\<exists>u. v2 ! 16 = SText (json_dumps x u)"
    using text_bound [OF assms(6), of 16] d2
    by (auto simp: user_tuple_def)
  have u19: "\<exists>u. v2 ! 19 = SText (json_dumps x u)"
    using text_bound [OF assms(6), of 19] d2
    by (auto simp: user_tuple_def)
  have u22: "\<exists>u. v2 ! 22 = SText (json_dumps x u)"
    using text_bound [OF assms(6), of 22] d2
    by (auto simp: user_tuple_def)
  have u23: "\<exists>u. v2 ! 23 = SText (json_dumps x u)"
    using text_bound [OF assms(6), of 23] d2
    by (auto simp: user_tuple_def)
  have c2: "column_value users_columns v2 (users_columns ! i) = v2 ! i" if "i < 27" for i
    by (rule column_value_nth [OF n2 distinct_columns(2)]) (use that in \<open>simp add: users_columns_def\<close>)
  from posts_data_to_save_tuples [OF assms(7,8)]
  obtain d3 where d3: "post_tuple x (PDict d3) = Inr t3" by blast
  have n3: "length v3 = length posts_columns"
    using bind_all_length [OF assms(9)] tuple_lengths(3) [OF d3]
    by (simp add: posts_columns_def)
  have q: "\<exists>u. v3 ! 4 = SText (json_dumps x u)"
    using text_bound [OF assms(9), of 4] d3
    by (auto simp: post_tuple_def split: sum.splits)
  have c3: "column_value posts_columns v3 (posts_columns ! 4) = v3 ! 4"
    by (rule column_value_nth [OF n3 distinct_columns(3)]) (simp add: posts_columns_def)
  have names: "products_columns ! 10 = lit ''images''" "users_columns ! 16 = lit ''hair''"
    "users_columns ! 19 = lit ''address''" "users_columns ! 22 = lit ''bank''"
    "users_columns ! 23 = lit ''company''" "posts_columns ! 4 = lit ''tags''"
    by (simp_all add: products_columns_def users_columns_def posts_columns_def)
  show ?thesis
    using p u16 u19 u22 u23 q c1 c2 [of 16] c2 [of 19] c2 [of 22] c2 [of 23] c3
    unfolding names by simp
qed

theorem nested_columns_are_text_witness:
  "(\<exists>u. column_value products_columns
      [SInt 1, SNull, SNull, SNull, SNull, SNull, SNull, SNull, SNull, SNull, SText (lit ''[]'')]
      (lit ''images'') = SText (json_dumps (ex_env GetTimeout) u)) \<and>
   (\<exists>u. column_value posts_columns [SInt 1, SNull, SNull, SNull, SText (lit ''[]''), SInt 0]
      (lit ''tags'') = SText (json_dumps (ex_env GetTimeout) u))"
  using nested_columns_are_text [of "ex_env GetTimeout"
      "[PDict [(lit ''id'', PInt 1)]]"
      "[[PInt 1, PNone, PNone, PNone, PNone, PNone, PNone, PNone, PNone, PNone, PStr (lit ''[]'')]]"
      "[]"
      "[PInt 1, PNone, PNone, PNone, PNone, PNone, PNone, PNone, PNone, PNone, PStr (lit ''[]'')]"
      "[SInt 1, SNull, SNull, SNull, SNull, SNull, SNull, SNull, SNull, SNull, SText (lit ''[]'')]"
      "[PDict [(lit ''id'', PInt 1)]]"
      "[[PInt 1, PNone, PNone, PNone, PNone, PNone, PNone, PNone, PNone, PNone, PNone, PNone,
         PNone, PNone, PNone, PNone, PStr (lit ''[]''), PNone, PNone, PStr (lit ''[]''), PNone,
         PNone, PStr (lit ''[]''), PStr (lit ''[]''), PNone, PNone, PNone]]"
      "[]"
      "[PInt 1, PNone, PNone, PNone, PNone, PNone, PNone, PNone, PNone, PNone, PNone, PNone,
        PNone, PNone, PNone, PNone, PStr (lit ''[]''), PNone, PNone, PStr (lit ''[]''), PNone,
        PNone, PStr (lit ''[]''), PStr (lit ''[]''), PNone, PNone, PNone]"
      "[SInt 1, SNull, SNull, SNull, SNull, SNull, SNull, SNull, SNull, SNull, SNull, SNull,
        SNull, SNull, SNull, SNull, SText (lit ''[]''), SNull, SNull, SText (lit ''[]''), SNull,
        SNull, SText (lit ''[]''), SText (lit ''[]''), SNull, SNull, SNull]"
      "[PDict [(lit ''id'', PInt 1)]]"
      "[[PInt 1, PNone, PNone, PNone, PStr (lit ''[]''), PInt 0]]"
      "[]"
      "[PInt 1, PNone, PNone, PNone, PStr (lit ''[]''), PInt 0]"
      "[SInt 1, SNull, SNull, SNull, SText (lit ''[]''), SInt 0]"]
  by (simp add: product_tuple_def user_tuple_def post_tuple_def post_reactions_def dict_get_def
      ex_env_def is_surrogate_def lit_def)

section \<open>The Inspector's format_value\<close>










section \<open>Inserting a batch twice\<close>















section \<open>Exceptions that reach the caller\<close>







lemma storable_simps [simp]: "storable PNone" "storable (PList xs)" "storable (PDict kvs)"
  by (simp_all add: storable_def)



















section \<open>Running a processor twice\<close>


















end
